theory Spec2Isabelle
  imports Complex_Main
begin

section \<open>JavaScript values\<close>

text \<open>
  The class \<open>FhirValidator\<close> handles values whose shape is only known at run time: the
  result of \<open>JSON.parse\<close> on a sidecar file or on an HTTP body, and the arguments its
  callers pass. They are modelled by one datatype of JavaScript values. A string is a
  byte list holding its UTF-8 encoding, and a \<open>Buffer\<close> is the byte list itself. An
  object is the list of its own properties; the first binding of a key is the one
  that is read.
\<close>

datatype jsval =
    JUndefined
  | JNull
  | JBool bool
  | JNum real
  | JStr string
  | JBuffer string
  | JArr "jsval list"
  | JObj "(string \<times> jsval) list"

datatype js_error =
    TypeError string
  | SyntaxError string
  | Error string

text \<open>The \<open>message\<close> property of an error object.\<close>

fun error_message :: "js_error \<Rightarrow> string" where
  "error_message (TypeError m) = m"
| "error_message (SyntaxError m) = m"
| "error_message (Error m) = m"

text \<open>
  Library functions of the platform that the class calls and that are not part of the
  repository: they are parameters of the model.
\<close>

record js_lib =
  JSON_parse :: "string \<Rightarrow> js_error + jsval"
  JSON_stringify :: "jsval \<Rightarrow> string"
  Number_toString :: "real \<Rightarrow> string"
  String_toNumber :: "string \<Rightarrow> real option"
  path_dirname :: "string \<Rightarrow> string"

text \<open>Truthiness, as \<open>!x\<close>, \<open>x || y\<close> and \<open>if (x)\<close> test it.\<close>

fun truthy :: "jsval \<Rightarrow> bool" where
  "truthy JUndefined = False"
| "truthy JNull = False"
| "truthy (JBool b) = b"
| "truthy (JNum r) = (r \<noteq> 0)"
| "truthy (JStr s) = (s \<noteq> [])"
| "truthy (JBuffer b) = True"
| "truthy (JArr xs) = True"
| "truthy (JObj kvs) = True"

text \<open>\<open>a || b\<close> on values.\<close>

definition js_or :: "jsval \<Rightarrow> jsval \<Rightarrow> jsval" where
  "js_or a b = (if truthy a then a else b)"

text \<open>
  \<open>a === b\<close>. Primitives are compared by value. Arrays, objects and buffers are compared
  by identity, and the two sides of every comparison in the class come from different
  allocations, so such a comparison is false.
\<close>

fun strict_eq :: "jsval \<Rightarrow> jsval \<Rightarrow> bool" where
  "strict_eq (JArr xs) b = False"
| "strict_eq (JObj kvs) b = False"
| "strict_eq (JBuffer c) b = False"
| "strict_eq a b = (a = b)"

fun typeof :: "jsval \<Rightarrow> string" where
  "typeof JUndefined = ''undefined''"
| "typeof JNull = ''object''"
| "typeof (JBool b) = ''boolean''"
| "typeof (JNum r) = ''number''"
| "typeof (JStr s) = ''string''"
| "typeof (JBuffer b) = ''object''"
| "typeof (JArr xs) = ''object''"
| "typeof (JObj kvs) = ''object''"

fun isBuffer :: "jsval \<Rightarrow> bool" where
  "isBuffer (JBuffer b) = True"
| "isBuffer v = False"

text \<open>
  Reading a property \<open>v.k\<close>, for the property names the class reads (none of them is an
  array index or an inherited data property). Reading from \<open>null\<close> or \<open>undefined\<close>
  throws; the message is the one of V8, with the name in single quotes. The \<open>length\<close>
  of a string is counted in bytes here; the class only compares a length with zero.
\<close>

definition quoted :: "string \<Rightarrow> string" where
  "quoted k = [CHR 0x27] @ k @ [CHR 0x27]"

fun get_prop :: "jsval \<Rightarrow> string \<Rightarrow> js_error + jsval" where
  "get_prop JUndefined k =
     Inl (TypeError (''Cannot read properties of undefined (reading '' @ quoted k @ '')''))"
| "get_prop JNull k =
     Inl (TypeError (''Cannot read properties of null (reading '' @ quoted k @ '')''))"
| "get_prop (JObj kvs) k = Inr (case map_of kvs k of Some v \<Rightarrow> v | None \<Rightarrow> JUndefined)"
| "get_prop (JArr xs) k =
     Inr (if k = ''length'' then JNum (real (length xs)) else JUndefined)"
| "get_prop (JStr s) k =
     Inr (if k = ''length'' then JNum (real (length s)) else JUndefined)"
| "get_prop (JBuffer b) k =
     Inr (if k = ''length'' then JNum (real (length b)) else JUndefined)"
| "get_prop (JBool b) k = Inr JUndefined"
| "get_prop (JNum r) k = Inr JUndefined"

text \<open>Sequencing of steps that may throw.\<close>

definition bindE :: "'e + 'a \<Rightarrow> ('a \<Rightarrow> 'e + 'b) \<Rightarrow> 'e + 'b" where
  "bindE m f = (case m of Inl e \<Rightarrow> Inl e | Inr x \<Rightarrow> f x)"

text \<open>
  \<open>xs.find(x => x.k === lit)\<close> on the elements of an array: the first element whose
  property \<open>k\<close> is the string \<open>lit\<close>, \<open>undefined\<close> when there is none. The callback throws
  on an element that is \<open>null\<close>.
\<close>

fun find_by :: "string \<Rightarrow> string \<Rightarrow> jsval list \<Rightarrow> js_error + jsval" where
  "find_by k lit [] = Inr JUndefined"
| "find_by k lit (x # xs) =
     (case get_prop x k of
        Inl e \<Rightarrow> Inl e
      | Inr v \<Rightarrow> if strict_eq v (JStr lit) then Inr x else find_by k lit xs)"

text \<open>
  The method call \<open>v.find(...)\<close>: only an array has the method.
\<close>

fun call_find :: "jsval \<Rightarrow> string \<Rightarrow> string \<Rightarrow> js_error + jsval" where
  "call_find (JArr xs) k lit = find_by k lit xs"
| "call_find JUndefined k lit =
     Inl (TypeError (''Cannot read properties of undefined (reading '' @ quoted ''find'' @ '')''))"
| "call_find JNull k lit =
     Inl (TypeError (''Cannot read properties of null (reading '' @ quoted ''find'' @ '')''))"
| "call_find v k lit = Inl (TypeError ''find is not a function'')"

section \<open>Strings\<close>

text \<open>Decimal digits of a number, as string interpolation prints a status code.\<close>

function show_nat :: "nat \<Rightarrow> string" where
  "show_nat n =
     (if n < 10 then [char_of (48 + n)]
      else show_nat (n div 10) @ [char_of (48 + n mod 10)])"
  by pat_completeness auto
termination
  by (relation "measure id") auto

declare show_nat.simps [simp del]

text \<open>\<open>xs.join(sep)\<close> on strings.\<close>

fun join :: "string \<Rightarrow> string list \<Rightarrow> string" where
  "join sep [] = []"
| "join sep [x] = x"
| "join sep (x # y # ys) = x @ sep @ join sep (y # ys)"

text \<open>
  Conversion to a string, as a template literal, \<open>toString()\<close> and
  \<open>URLSearchParams.set\<close> perform it. The text of a number comes from the platform.
\<close>

fun js_ToString :: "js_lib \<Rightarrow> jsval \<Rightarrow> string" where
  "js_ToString L JUndefined = ''undefined''"
| "js_ToString L JNull = ''null''"
| "js_ToString L (JBool b) = (if b then ''true'' else ''false'')"
| "js_ToString L (JNum r) = Number_toString L r"
| "js_ToString L (JStr s) = s"
| "js_ToString L (JBuffer b) = b"
| "js_ToString L (JArr xs) =
     join '','' (map (\<lambda>x. if x = JUndefined \<or> x = JNull then [] else js_ToString L x) xs)"
| "js_ToString L (JObj kvs) = ''[object Object]''"

text \<open>
  \<open>String.prototype.trim\<close> removes white space and line terminators from both ends:
  U+0009 to U+000D, U+0020, U+00A0, U+1680, U+2000 to U+200A, U+2028, U+2029, U+202F,
  U+205F, U+3000 and U+FEFF. The list holds their UTF-8 encodings.
\<close>

definition js_whitespace :: "string list" where
  "js_whitespace =
     [[CHR 0x09], [CHR 0x0A], [CHR 0x0B], [CHR 0x0C], [CHR 0x0D], [CHR 0x20],
      [CHR 0xC2, CHR 0xA0],
      [CHR 0xE1, CHR 0x9A, CHR 0x80],
      [CHR 0xE2, CHR 0x80, CHR 0x80], [CHR 0xE2, CHR 0x80, CHR 0x81],
      [CHR 0xE2, CHR 0x80, CHR 0x82], [CHR 0xE2, CHR 0x80, CHR 0x83],
      [CHR 0xE2, CHR 0x80, CHR 0x84], [CHR 0xE2, CHR 0x80, CHR 0x85],
      [CHR 0xE2, CHR 0x80, CHR 0x86], [CHR 0xE2, CHR 0x80, CHR 0x87],
      [CHR 0xE2, CHR 0x80, CHR 0x88], [CHR 0xE2, CHR 0x80, CHR 0x89],
      [CHR 0xE2, CHR 0x80, CHR 0x8A],
      [CHR 0xE2, CHR 0x80, CHR 0xA8], [CHR 0xE2, CHR 0x80, CHR 0xA9],
      [CHR 0xE2, CHR 0x80, CHR 0xAF],
      [CHR 0xE2, CHR 0x81, CHR 0x9F],
      [CHR 0xE3, CHR 0x80, CHR 0x80],
      [CHR 0xEF, CHR 0xBB, CHR 0xBF]]"

definition leading_ws :: "string \<Rightarrow> string option" where
  "leading_ws s = List.find (\<lambda>w. take (length w) s = w) js_whitespace"

definition trailing_ws :: "string \<Rightarrow> string option" where
  "trailing_ws s = List.find (\<lambda>w. drop (length s - length w) s = w) js_whitespace"

function trimStart :: "string \<Rightarrow> string" where
  "trimStart s =
     (case leading_ws s of
        None \<Rightarrow> s
      | Some w \<Rightarrow> trimStart (drop (length w) s))"
  by pat_completeness auto
termination
proof (relation "measure length", goal_cases)
  case 1
  show ?case by simp
next
  case (2 s w)
  then have "w \<in> set js_whitespace" and tk: "take (length w) s = w"
    by (auto simp: leading_ws_def find_Some_iff)
  then have "w \<noteq> []"
    by (auto simp: js_whitespace_def)
  moreover from tk have "s \<noteq> [] \<or> w = []"
    by auto
  ultimately show ?case
    by simp
qed

declare trimStart.simps [simp del]

function trimEnd :: "string \<Rightarrow> string" where
  "trimEnd s =
     (case trailing_ws s of
        None \<Rightarrow> s
      | Some w \<Rightarrow> trimEnd (take (length s - length w) s))"
  by pat_completeness auto
termination
proof (relation "measure length", goal_cases)
  case 1
  show ?case by simp
next
  case (2 s w)
  then have "w \<in> set js_whitespace" and dr: "drop (length s - length w) s = w"
    by (auto simp: trailing_ws_def find_Some_iff)
  then have "w \<noteq> []"
    by (auto simp: js_whitespace_def)
  moreover from dr have "s \<noteq> [] \<or> w = []"
    by auto
  ultimately show ?case
    by simp
qed

declare trimEnd.simps [simp del]

definition trim :: "string \<Rightarrow> string" where
  "trim s = trimEnd (trimStart s)"

text \<open>\<open>s.startsWith(p)\<close>.\<close>

definition startsWith :: "string \<Rightarrow> string \<Rightarrow> bool" where
  "startsWith s p = (take (length p) s = p)"

section \<open>The file system\<close>

text \<open>
  A path holds a regular file with its contents, a directory, or an entry that
  \<open>readFileSync\<close> cannot read (the text is the message of the error it throws).
\<close>

datatype fs_node = File string | Dir | Denied string

type_synonym filesystem = "string \<rightharpoonup> fs_node"

definition existsSync :: "filesystem \<Rightarrow> string \<Rightarrow> bool" where
  "existsSync fs p = (fs p \<noteq> None)"

definition readFileSync :: "filesystem \<Rightarrow> string \<Rightarrow> js_error + string" where
  "readFileSync fs p =
     (case fs p of
        None \<Rightarrow> Inl (Error ''ENOENT: no such file or directory'')
      | Some (File c) \<Rightarrow> Inr c
      | Some Dir \<Rightarrow> Inl (Error ''EISDIR: illegal operation on a directory'')
      | Some (Denied m) \<Rightarrow> Inl (Error m))"

text \<open>
  \<open>renameSync\<close> and \<open>unlinkSync\<close> throw when the entries at the paths do not admit the
  operation: a missing source, a regular file renamed onto a directory or a directory
  onto a file, a directory unlinked. Otherwise the entry moves, replacing what the target
  held, or goes away. An entry that cannot be read is renamed and unlinked like a regular
  file, and a directory is renamed as the single entry it is in this file system.
\<close>

definition renameSync :: "filesystem \<Rightarrow> string \<Rightarrow> string \<Rightarrow> js_error + filesystem" where
  "renameSync fs a b =
     (case fs a of
        None \<Rightarrow> Inl (Error ''ENOENT: no such file or directory, rename'')
      | Some n \<Rightarrow>
          (case fs b of
             None \<Rightarrow> Inr ((fs(b := fs a))(a := None))
           | Some Dir \<Rightarrow>
               if n = Dir then Inr ((fs(b := fs a))(a := None))
               else Inl (Error ''EISDIR: illegal operation on a directory, rename'')
           | Some (File c) \<Rightarrow>
               if n = Dir then Inl (Error ''ENOTDIR: not a directory, rename'')
               else Inr ((fs(b := fs a))(a := None))
           | Some (Denied m) \<Rightarrow>
               if n = Dir then Inl (Error ''ENOTDIR: not a directory, rename'')
               else Inr ((fs(b := fs a))(a := None))))"

definition unlinkSync :: "filesystem \<Rightarrow> string \<Rightarrow> js_error + filesystem" where
  "unlinkSync fs a =
     (case fs a of
        None \<Rightarrow> Inl (Error ''ENOENT: no such file or directory, unlink'')
      | Some Dir \<Rightarrow> Inl (Error ''EISDIR: illegal operation on a directory, unlink'')
      | Some (File c) \<Rightarrow> Inr (fs(a := None))
      | Some (Denied m) \<Rightarrow> Inr (fs(a := None)))"

text \<open>
  \<open>mkdirSync(d, { recursive: true })\<close>, the only form the class uses. A directory that is
  there is left alone; a path that holds something else makes the call throw, before
  anything is created; a missing path is created after its parent directory, and so on
  upwards. \<open>path.dirname\<close> shortens a path until it reaches its fixed point (the root or
  \<open>.\<close>), so the number of steps upwards is bounded by the length of the path.
  \<open>dirnames\<close> lists the paths such a walk visits.
\<close>

fun mkdir_p :: "js_lib \<Rightarrow> nat \<Rightarrow> filesystem \<Rightarrow> string \<Rightarrow> js_error + filesystem" where
  "mkdir_p L n fs d =
     (case fs d of
        Some Dir \<Rightarrow> Inr fs
      | Some (File c) \<Rightarrow> Inl (Error ''EEXIST: file already exists, mkdir'')
      | Some (Denied m) \<Rightarrow> Inl (Error ''EEXIST: file already exists, mkdir'')
      | None \<Rightarrow>
          (case n of
             0 \<Rightarrow> Inr (fs(d \<mapsto> Dir))
           | Suc k \<Rightarrow>
               (case mkdir_p L k fs (path_dirname L d) of
                  Inl e \<Rightarrow> Inl (Error ''ENOTDIR: not a directory, mkdir'')
                | Inr fs' \<Rightarrow> Inr (fs'(d \<mapsto> Dir)))))"

declare mkdir_p.simps [simp del]

definition mkdirSync :: "js_lib \<Rightarrow> filesystem \<Rightarrow> string \<Rightarrow> js_error + filesystem" where
  "mkdirSync L fs d = mkdir_p L (length d) fs d"


text \<open>
  \<open>writeFileSync\<close> writes the version record. It is modelled on a file system that
  accepts the write.
\<close>

definition writeFileSync :: "filesystem \<Rightarrow> string \<Rightarrow> string \<Rightarrow> filesystem" where
  "writeFileSync fs p c = fs(p \<mapsto> File c)"

text \<open>
  \<open>createWriteStream(p)\<close> opens the file for writing, creating or truncating it. The open
  is refused, and the stream emits \<open>error\<close> with nothing created, when the path holds a
  directory or an entry that denies access, or when the directory of the path is not a
  directory.
\<close>

definition open_error :: "js_lib \<Rightarrow> filesystem \<Rightarrow> string \<Rightarrow> js_error option" where
  "open_error L fs p =
     (case fs p of
        Some Dir \<Rightarrow> Some (Error ''EISDIR: illegal operation on a directory, open'')
      | Some (Denied m) \<Rightarrow> Some (Error m)
      | _ \<Rightarrow>
          (case fs (path_dirname L p) of
             Some Dir \<Rightarrow> None
           | None \<Rightarrow> Some (Error ''ENOENT: no such file or directory, open'')
           | _ \<Rightarrow> Some (Error ''ENOTDIR: not a directory, open'')))"

section \<open>The validator instance\<close>

text \<open>
  The handle of the child process, with the \<open>killed\<close> flag \<open>kill\<close> sets, and the fields
  of an instance of \<open>FhirValidator\<close> (\<open>jarVersion\<close> is the field \<open>version\<close>; \<open>None\<close> is
  \<open>null\<close> or, for that field, \<open>undefined\<close>). The logger is not part of the model.
\<close>

record child =
  command :: string
  args :: "string list"
  killed :: bool

record validator =
  validatorJarPath :: string
  versionFilePath :: string
  process :: "child option"
  port :: "jsval option"
  baseUrl :: "string option"
  isReady :: bool
  jarVersion :: "jsval option"

definition constructor :: "string \<Rightarrow> validator" where
  "constructor jar =
     \<lparr> validatorJarPath = jar,
       versionFilePath = jar @ ''.version'',
       process = None,
       port = None,
       baseUrl = None,
       isReady = False,
       jarVersion = None \<rparr>"

section \<open>Version tracking\<close>

text \<open>
  The body of the \<open>try\<close> block of \<open>getInstalledVersion\<close>: \<open>Inl\<close> is a thrown error,
  \<open>Inr None\<close> is falling through the \<open>if\<close>, \<open>Inr (Some v)\<close> is \<open>return v\<close>.
\<close>

definition getInstalledVersion_try ::
  "js_lib \<Rightarrow> filesystem \<Rightarrow> validator \<Rightarrow> js_error + jsval option" where
  "getInstalledVersion_try L fs this =
     (if existsSync fs (versionFilePath this)
      then bindE (readFileSync fs (versionFilePath this)) (\<lambda>text.
           bindE (JSON_parse L text) (\<lambda>versionInfo.
           bindE (get_prop versionInfo ''version'') (\<lambda>v. Inr (Some v))))
      else Inr None)"

text \<open>
  \<open>getInstalledVersion\<close>: the \<open>catch\<close> block only logs, and \<open>return null\<close> follows it.
  The result is a sum so that a throw of the function would be a value \<open>Inl\<close>.
\<close>

definition getInstalledVersion :: "js_lib \<Rightarrow> filesystem \<Rightarrow> validator \<Rightarrow> js_error + jsval" where
  "getInstalledVersion L fs this =
     (case getInstalledVersion_try L fs this of
        Inr (Some v) \<Rightarrow> Inr v
      | Inr None \<Rightarrow> Inr JNull
      | Inl e \<Rightarrow> Inr JNull)"

section \<open>The release index\<close>

text \<open>
  What the network does with one HTTP request: the request emits \<open>error\<close>, its
  timeout fires, or a response arrives with a status code and a body.
\<close>

datatype http_outcome =
    RequestError js_error
  | RequestTimeout
  | Response nat string

text \<open>The value \<open>getLatestRelease\<close> resolves with: \<open>{version, downloadUrl, publishedAt}\<close>.\<close>

record release =
  rel_version :: jsval
  rel_downloadUrl :: jsval
  rel_publishedAt :: jsval

text \<open>
  \<open>saveVersionInfo\<close> writes the sidecar record; \<open>now\<close> is the text of
  \<open>new Date().toISOString()\<close>.
\<close>

definition saveVersionInfo ::
  "js_lib \<Rightarrow> string \<Rightarrow> filesystem \<Rightarrow> validator \<Rightarrow> jsval \<Rightarrow> jsval \<Rightarrow> filesystem" where
  "saveVersionInfo L now fs this v url =
     writeFileSync fs (versionFilePath this)
       (JSON_stringify L
          (JObj [(''version'', v), (''downloadUrl'', url), (''downloadedAt'', JStr now)]))"

text \<open>
  The \<open>try\<close> block of the \<open>end\<close> handler of \<open>getLatestRelease\<close>: \<open>Inl\<close> is a thrown
  error, \<open>Inr\<close> is the call of \<open>reject\<close> or \<open>resolve\<close> the block makes.
\<close>

definition getLatestRelease_try :: "js_lib \<Rightarrow> string \<Rightarrow> js_error + (js_error + release)" where
  "getLatestRelease_try L data =
     bindE (JSON_parse L data) (\<lambda>rel.
     bindE (get_prop rel ''tag_name'') (\<lambda>v.
     bindE (get_prop rel ''assets'') (\<lambda>assets.
     bindE (call_find assets ''name'' ''validator_cli.jar'') (\<lambda>asset.
       if \<not> truthy asset
       then Inr (Inl (Error ''validator_cli.jar not found in latest release assets''))
       else
         bindE (get_prop asset ''browser_download_url'') (\<lambda>url.
         bindE (get_prop rel ''published_at'') (\<lambda>published.
           Inr (Inr \<lparr> rel_version = v, rel_downloadUrl = url, rel_publishedAt = published \<rparr>)))))))"

definition getLatestRelease :: "js_lib \<Rightarrow> http_outcome \<Rightarrow> js_error + release" where
  "getLatestRelease L reply =
     (case reply of
        RequestError e \<Rightarrow> Inl e
      | RequestTimeout \<Rightarrow> Inl (Error ''GitHub API request timeout'')
      | Response statusCode data \<Rightarrow>
          if statusCode \<noteq> 200
          then Inl (Error (''GitHub API returned status '' @ show_nat statusCode @ '': '' @ data))
          else
            (case getLatestRelease_try L data of
               Inl e \<Rightarrow> Inl (Error (''Failed to parse GitHub response: '' @ error_message e))
             | Inr r \<Rightarrow> r))"

section \<open>Downloading\<close>

text \<open>
  What happens once a response with status 200 is piped into the write stream on the
  temporary file. \<open>Finished\<close>: the stream emits \<open>finish\<close> after the whole payload.
  \<open>WriteFailed\<close>: the write stream emits \<open>error\<close>; the flag tells whether the
  temporary file had been opened, the string is what it holds by then.
  \<open>Aborted\<close>: the request emits \<open>error\<close> while the body is in transit (the socket
  fails).
  \<open>Stalled\<close>: the request timeout fires while the body is in transit.
  \<open>CutOff\<close>: the connection is closed while the body is in transit. The response is
  destroyed, which emits nothing anyone listens to: the request emits no \<open>error\<close>, the
  write stream is never ended and the timeout of the closed socket never fires.
  In the last three cases the string is what the temporary file holds by then.
\<close>

datatype transfer =
    Finished string
  | WriteFailed bool string js_error
  | Aborted string js_error
  | Stalled string
  | CutOff string

text \<open>
  What one call of \<open>downloadWithRedirects\<close> meets: \<open>new URL\<close> rejects the address, the
  request fails or times out before a response, or a response arrives with its status
  code, its \<open>location\<close> header and the course of the transfer.

  A response that is a redirect is not read, and its request is left behind with its
  timeout of five minutes. For such a response \<open>Stalled\<close> says that this timeout fires
  while a later request is under way (the server has kept the idle connection open), any
  other value that it never fires (the server has closed the connection).
\<close>

datatype hop =
    InvalidUrl
  | ConnectFailed js_error
  | ConnectTimeout
  | Reply nat "string option" transfer

text \<open>
  How a promise ends. \<open>Unsettled\<close>: an exception left an event callback, so neither
  \<open>resolve\<close> nor \<open>reject\<close> is ever called. \<open>Pending\<close>: no exception, and no event is
  left that would call \<open>resolve\<close> or \<open>reject\<close>.
\<close>

datatype 'a promise = Resolved 'a | Rejected js_error | Unsettled js_error | Pending

text \<open>
  The listener of \<open>finish\<close> on the write stream: once the stream is closed, the temporary
  file is renamed to the destination and the promise resolved. The listener of \<open>error\<close>
  on the write stream: the temporary file is unlinked if the path exists, then the
  promise is rejected with the error of the stream. An exception of \<open>renameSync\<close> or
  \<open>unlinkSync\<close> leaves the listener, and the promise unsettled.
\<close>

definition fileStream_on_finish ::
  "filesystem \<Rightarrow> string \<Rightarrow> string \<Rightarrow> unit promise \<times> filesystem" where
  "fileStream_on_finish fs tempPath destPath =
     (case renameSync fs tempPath destPath of
        Inl e \<Rightarrow> (Unsettled e, fs)
      | Inr fs' \<Rightarrow> (Resolved (), fs'))"

definition fileStream_on_error ::
  "filesystem \<Rightarrow> string \<Rightarrow> js_error \<Rightarrow> unit promise \<times> filesystem" where
  "fileStream_on_error fs tempPath err =
     (if existsSync fs tempPath
      then (case unlinkSync fs tempPath of
              Inl e \<Rightarrow> (Unsettled e, fs)
            | Inr fs' \<Rightarrow> (Rejected err, fs'))
      else (Rejected err, fs))"

text \<open>
  The inner function of \<open>downloadFile\<close>; \<open>pipe_response\<close> is its last part, from the
  creation of the directory on, for a response with status 200. An exception of
  \<open>mkdirSync\<close> leaves the callback of the response. When the file system refuses to open
  the temporary file, the write stream emits \<open>error\<close> before the transfer takes its
  course; otherwise the transfer decides. The environment \<open>web\<close> answers the request
  number \<open>redirectCount\<close> for an address. The result is how the promise ends, the file
  system afterwards, and the addresses requested, in order.
\<close>

definition pipe_response ::
  "js_lib \<Rightarrow> filesystem \<Rightarrow> string \<Rightarrow> string \<Rightarrow> transfer
     \<Rightarrow> unit promise \<times> filesystem \<times> string list" where
  "pipe_response L fs destPath downloadUrl body =
     (let dir = path_dirname L destPath in
      case (if \<not> existsSync fs dir then mkdirSync L fs dir else Inr fs) of
        Inl e \<Rightarrow> (Unsettled e, fs, [downloadUrl])
      | Inr fs1 \<Rightarrow>
          (let tempPath = destPath @ ''.download'' in
           case open_error L fs1 tempPath of
             Some e \<Rightarrow>
               (case fileStream_on_error fs1 tempPath e of
                  (r, fs2) \<Rightarrow> (r, fs2, [downloadUrl]))
           | None \<Rightarrow>
               (case body of
                  Finished payload \<Rightarrow>
                    (case fileStream_on_finish (fs1(tempPath \<mapsto> File payload))
                            tempPath destPath of
                       (r, fs2) \<Rightarrow> (r, fs2, [downloadUrl]))
                | WriteFailed opened partial err \<Rightarrow>
                    (case fileStream_on_error
                            (if opened then fs1(tempPath \<mapsto> File partial) else fs1)
                            tempPath err of
                       (r, fs2) \<Rightarrow> (r, fs2, [downloadUrl]))
                | Aborted partial err \<Rightarrow>
                    (Rejected err, fs1(tempPath \<mapsto> File partial), [downloadUrl])
                | Stalled partial \<Rightarrow>
                    (Rejected (Error ''Download timeout''),
                     fs1(tempPath \<mapsto> File partial), [downloadUrl])
                | CutOff partial \<Rightarrow>
                    (Pending, fs1(tempPath \<mapsto> File partial), [downloadUrl]))))"

text \<open>
  The test \<open>res.statusCode >= 300 && res.statusCode < 400 && res.headers.location\<close>, on the
  fields of a response and on what a call meets.
\<close>

definition is_redirect :: "nat \<Rightarrow> string option \<Rightarrow> bool" where
  "is_redirect statusCode location =
     (300 \<le> statusCode \<and> statusCode < 400 \<and> location \<noteq> None \<and> location \<noteq> Some [])"


text \<open>
  The callback of \<open>req.setTimeout\<close> of a request whose redirect has been followed. The
  next call has ended at once, without a request, when it found the limit exceeded or
  the address invalid: the timeout comes too late then. Otherwise it rejects the promise
  before a later event settles it; what the later requests do to the file system takes
  place all the same.
\<close>

definition timeout_fires :: "transfer \<Rightarrow> bool" where
  "timeout_fires body = (case body of Stalled partial \<Rightarrow> True | _ \<Rightarrow> False)"


definition on_timeout :: "transfer \<Rightarrow> string list \<Rightarrow> unit promise \<Rightarrow> unit promise" where
  "on_timeout body later r =
     (if timeout_fires body \<and> later \<noteq> [] then Rejected (Error ''Download timeout'') else r)"

function downloadWithRedirects ::
  "js_lib \<Rightarrow> (nat \<Rightarrow> string \<Rightarrow> hop) \<Rightarrow> string \<Rightarrow> string \<Rightarrow> nat \<Rightarrow> filesystem
     \<Rightarrow> unit promise \<times> filesystem \<times> string list" where
  "downloadWithRedirects L web destPath downloadUrl redirectCount fs =
     (if redirectCount > 5 then (Rejected (Error ''Too many redirects''), fs, [])
      else
        (case web redirectCount downloadUrl of
           InvalidUrl \<Rightarrow>
             (if redirectCount = 0 then Rejected (TypeError ''Invalid URL'')
              else Unsettled (TypeError ''Invalid URL''), fs, [])
         | ConnectFailed e \<Rightarrow> (Rejected e, fs, [downloadUrl])
         | ConnectTimeout \<Rightarrow> (Rejected (Error ''Download timeout''), fs, [downloadUrl])
         | Reply statusCode location body \<Rightarrow>
             if is_redirect statusCode location
             then
               (case downloadWithRedirects L web destPath (the location) (redirectCount + 1) fs of
                  (r, fs', reqs) \<Rightarrow> (on_timeout body reqs r, fs', downloadUrl # reqs))
             else if statusCode \<noteq> 200
             then (Rejected (Error (''Download failed with status '' @ show_nat statusCode)),
                   fs, [downloadUrl])
             else pipe_response L fs destPath downloadUrl body))"
  by pat_completeness auto
termination
  by (relation "measure (\<lambda>(L, web, destPath, downloadUrl, redirectCount, fs). 6 - redirectCount)")
     (auto simp: is_redirect_def)

declare downloadWithRedirects.simps [simp del]

definition downloadFile ::
  "js_lib \<Rightarrow> (nat \<Rightarrow> string \<Rightarrow> hop) \<Rightarrow> filesystem \<Rightarrow> string \<Rightarrow> string
     \<Rightarrow> unit promise \<times> filesystem \<times> string list" where
  "downloadFile L web fs url destPath = downloadWithRedirects L web destPath url 0 fs"

section \<open>Ensuring the artifact\<close>

text \<open>
  The network requests \<open>ensureValidator\<close> issues, in order, and the value it resolves
  with: \<open>{version, updated, downloaded}\<close>.
\<close>

datatype net_event = QueryLatest | Get string

record ensure_result =
  version :: jsval
  updated :: bool
  downloaded :: bool

text \<open>The environment of one call: the clock, the release index and the web.\<close>

record env =
  env_now :: string
  env_github :: http_outcome
  env_web :: "nat \<Rightarrow> string \<Rightarrow> hop"

text \<open>A destructuring default \<open>{ x = d }\<close> applies when the property is \<open>undefined\<close>.\<close>

definition with_default :: "jsval \<Rightarrow> jsval \<Rightarrow> jsval" where
  "with_default v d = (if v = JUndefined then d else v)"

definition ensureValidator ::
  "js_lib \<Rightarrow> env \<Rightarrow> filesystem \<Rightarrow> validator \<Rightarrow> jsval
     \<Rightarrow> ensure_result promise \<times> filesystem \<times> net_event list" where
  "ensureValidator L E fs this options0 =
     (let options = with_default options0 (JObj []) in
      case bindE (get_prop options ''force'') (\<lambda>f.
           bindE (get_prop options ''skipUpdateCheck'') (\<lambda>s.
             Inr (truthy (with_default f (JBool False)), truthy (with_default s (JBool False))))) of
        Inl e \<Rightarrow> (Rejected e, fs, [])
      | Inr (force, skipUpdateCheck) \<Rightarrow>
          (let jarExists = existsSync fs (validatorJarPath this) in
           case getInstalledVersion L fs this of
             Inl e \<Rightarrow> (Rejected e, fs, [])
           | Inr installedVersion \<Rightarrow>
               if jarExists \<and> skipUpdateCheck \<and> \<not> force
               then (Resolved \<lparr> version = js_or installedVersion (JStr ''unknown''),
                                 updated = False, downloaded = False \<rparr>, fs, [])
               else
                 (case getLatestRelease L (env_github E) of
                    Inl e \<Rightarrow> (Rejected e, fs, [QueryLatest])
                  | Inr latest \<Rightarrow>
                      (let needsDownload =
                             (force \<or> \<not> jarExists \<or> \<not> truthy installedVersion
                              \<or> \<not> strict_eq installedVersion (rel_version latest))
                       in if \<not> needsDownload
                          then (Resolved \<lparr> version = installedVersion,
                                            updated = False, downloaded = False \<rparr>,
                                fs, [QueryLatest])
                          else
                            (case downloadFile L (env_web E) fs
                                    (js_ToString L (rel_downloadUrl latest)) (validatorJarPath this) of
                               (Resolved u, fs', gets) \<Rightarrow>
                                 (Resolved \<lparr> version = rel_version latest,
                                              updated = (\<not> strict_eq installedVersion JNull
                                                \<and> \<not> strict_eq installedVersion (rel_version latest)),
                                              downloaded = True \<rparr>,
                                  saveVersionInfo L (env_now E) fs' this
                                    (rel_version latest) (rel_downloadUrl latest),
                                  QueryLatest # map Get gets)
                             | (Rejected e, fs', gets) \<Rightarrow>
                                 (Rejected e, fs', QueryLatest # map Get gets)
                             | (Unsettled e, fs', gets) \<Rightarrow>
                                 (Unsettled e, fs', QueryLatest # map Get gets)
                             | (Pending, fs', gets) \<Rightarrow>
                                 (Pending, fs', QueryLatest # map Get gets))))))"

section \<open>The HTTP client\<close>

text \<open>
  Conversion to a number (\<open>None\<close> is \<open>NaN\<close>) and the comparison \<open>a < b\<close> where one side
  is a number, as \<open>x.length > 0\<close> and \<open>Date.now() - startTime < timeout\<close> evaluate it.
\<close>

fun js_ToNumber :: "js_lib \<Rightarrow> jsval \<Rightarrow> real option" where
  "js_ToNumber L JUndefined = None"
| "js_ToNumber L JNull = Some 0"
| "js_ToNumber L (JBool b) = Some (if b then 1 else 0)"
| "js_ToNumber L (JNum r) = Some r"
| "js_ToNumber L (JStr s) = String_toNumber L s"
| "js_ToNumber L v = String_toNumber L (js_ToString L v)"

definition js_less :: "js_lib \<Rightarrow> jsval \<Rightarrow> jsval \<Rightarrow> bool" where
  "js_less L a b =
     (case (js_ToNumber L a, js_ToNumber L b) of
        (Some x, Some y) \<Rightarrow> x < y
      | _ \<Rightarrow> False)"

text \<open>The method calls \<open>v.join(',')\<close> and \<open>v.toString()\<close>.\<close>

fun call_join :: "js_lib \<Rightarrow> jsval \<Rightarrow> js_error + string" where
  "call_join L (JArr xs) = Inr (js_ToString L (JArr xs))"
| "call_join L (JBuffer b) = Inr (join '','' (map (\<lambda>c. show_nat (of_char c)) b))"
| "call_join L JUndefined =
     Inl (TypeError (''Cannot read properties of undefined (reading '' @ quoted ''join'' @ '')''))"
| "call_join L JNull =
     Inl (TypeError (''Cannot read properties of null (reading '' @ quoted ''join'' @ '')''))"
| "call_join L v = Inl (TypeError ''join is not a function'')"

fun call_toString :: "js_lib \<Rightarrow> jsval \<Rightarrow> js_error + string" where
  "call_toString L JUndefined =
     Inl (TypeError (''Cannot read properties of undefined (reading '' @ quoted ''toString'' @ '')''))"
| "call_toString L JNull =
     Inl (TypeError (''Cannot read properties of null (reading '' @ quoted ''toString'' @ '')''))"
| "call_toString L v = Inr (js_ToString L v)"

text \<open>
  A request to the engine. The query is kept as the list of pairs set on the
  \<open>URLSearchParams\<close> object, in order; \<open>req_origin\<close> is the base URL of the instance.
\<close>

record http_request =
  req_method :: string
  req_origin :: string
  req_path :: string
  req_query :: "(string \<times> string) list"
  req_headers :: "(string \<times> string) list"
  req_body :: "string option"

text \<open>
  The bytes of a string (\<open>Buffer.from(s, 'utf8')\<close>) and the text of a buffer
  (\<open>b.toString('utf8')\<close>): strings are held in UTF-8, so both are the byte list.
\<close>

fun utf8_bytes :: "jsval \<Rightarrow> string" where
  "utf8_bytes (JStr s) = s"
| "utf8_bytes (JBuffer b) = b"
| "utf8_bytes v = []"

text \<open>
  The first part of \<open>validate\<close>: the conversion of the resource to bytes and the choice of
  the content type.
\<close>

definition normalize_resource :: "js_lib \<Rightarrow> jsval \<Rightarrow> js_error + string \<times> string" where
  "normalize_resource L resource =
     (if typeof resource = ''string''
      then Inr (utf8_bytes resource,
                if startsWith (trim (utf8_bytes resource)) ''<''
                then ''application/fhir+xml'' else ''application/fhir+json'')
      else if isBuffer resource
      then Inr (utf8_bytes resource,
                if startsWith (trim (utf8_bytes resource)) ''<''
                then ''application/fhir+xml'' else ''application/fhir+json'')
      else if typeof resource = ''object''
      then Inr (JSON_stringify L resource, ''application/fhir+json'')
      else Inl (Error ''Resource must be a string, Buffer, or object''))"

text \<open>The second part of \<open>validate\<close>: the query parameters built from the options.\<close>

definition validate_query :: "js_lib \<Rightarrow> jsval \<Rightarrow> js_error + (string \<times> string) list" where
  "validate_query L options =
     bindE (get_prop options ''profiles'') (\<lambda>profiles.
     bindE (if truthy profiles
            then bindE (get_prop profiles ''length'') (\<lambda>n.
                   if js_less L (JNum 0) n
                   then bindE (call_join L profiles) (\<lambda>joined. Inr [(''profiles'', joined)])
                   else Inr [])
            else Inr []) (\<lambda>q1.
     bindE (get_prop options ''resourceIdRule'') (\<lambda>resourceIdRule.
     bindE (get_prop options ''anyExtensionsAllowed'') (\<lambda>anyExtensionsAllowed.
     bindE (if anyExtensionsAllowed \<noteq> JUndefined
            then bindE (call_toString L anyExtensionsAllowed) (\<lambda>t.
                   Inr [(''anyExtensionsAllowed'', t)])
            else Inr []) (\<lambda>q3.
     bindE (get_prop options ''bpWarnings'') (\<lambda>bpWarnings.
     bindE (get_prop options ''displayOption'') (\<lambda>displayOption.
       Inr (q1
            @ (if truthy resourceIdRule
               then [(''resourceIdRule'', js_ToString L resourceIdRule)] else [])
            @ q3
            @ (if truthy bpWarnings then [(''bpWarnings'', js_ToString L bpWarnings)] else [])
            @ (if truthy displayOption
               then [(''displayOption'', js_ToString L displayOption)] else [])))))))))"

text \<open>
  \<open>validate\<close>. The environment \<open>net\<close> answers the request. The result is the outcome of
  the promise (\<open>Inl\<close> is a rejection) and the requests issued. A base URL that is
  \<open>null\<close> makes \<open>new URL\<close> throw inside the promise executor.
\<close>

definition validate ::
  "js_lib \<Rightarrow> (http_request \<Rightarrow> http_outcome) \<Rightarrow> validator \<Rightarrow> jsval \<Rightarrow> jsval
     \<Rightarrow> (js_error + jsval) \<times> http_request list" where
  "validate L net this resource options0 =
     (if \<not> isReady this then (Inl (Error ''Validator service is not ready''), [])
      else
        (case normalize_resource L resource of
           Inl e \<Rightarrow> (Inl e, [])
         | Inr (resourceBytes, contentType) \<Rightarrow>
             (case validate_query L (with_default options0 (JObj [])) of
                Inl e \<Rightarrow> (Inl e, [])
              | Inr queryParams \<Rightarrow>
                  (case baseUrl this of
                     None \<Rightarrow> (Inl (TypeError ''Invalid URL''), [])
                   | Some base \<Rightarrow>
                       (let req = \<lparr> req_method = ''POST'',
                                     req_origin = base,
                                     req_path = ''/validateResource'',
                                     req_query = queryParams,
                                     req_headers =
                                       [(''Content-Type'', contentType),
                                        (''Content-Length'', show_nat (length resourceBytes)),
                                        (''Accept'', ''application/fhir+json'')],
                                     req_body = Some resourceBytes \<rparr>
                        in (case net req of
                              RequestError e \<Rightarrow> Inl e
                            | RequestTimeout \<Rightarrow> Inl (Error ''Validation request timeout'')
                            | Response statusCode data \<Rightarrow>
                                (case JSON_parse L data of
                                   Inl e \<Rightarrow>
                                     Inl (Error (''Failed to parse response: '' @ error_message e
                                                 @ [CHR 0x0A] @ ''Response: '' @ data))
                                 | Inr v \<Rightarrow> Inr v),
                            [req]))))))"

definition validateBytes ::
  "js_lib \<Rightarrow> (http_request \<Rightarrow> http_outcome) \<Rightarrow> validator \<Rightarrow> jsval \<Rightarrow> jsval \<Rightarrow> jsval
     \<Rightarrow> (js_error + jsval) \<times> http_request list" where
  "validateBytes L net this resourceBytes format options0 =
     (if \<not> isBuffer resourceBytes then (Inl (Error ''resourceBytes must be a Buffer''), [])
      else validate L net this resourceBytes (with_default options0 (JObj [])))"

definition validateObject ::
  "js_lib \<Rightarrow> (http_request \<Rightarrow> http_outcome) \<Rightarrow> validator \<Rightarrow> jsval \<Rightarrow> jsval
     \<Rightarrow> (js_error + jsval) \<times> http_request list" where
  "validateObject L net this resourceObject options0 =
     (if typeof resourceObject \<noteq> ''object'' \<or> resourceObject = JNull
      then (Inl (Error ''resourceObject must be an object''), [])
      else validate L net this resourceObject (with_default options0 (JObj [])))"

definition loadIG ::
  "js_lib \<Rightarrow> (http_request \<Rightarrow> http_outcome) \<Rightarrow> validator \<Rightarrow> jsval \<Rightarrow> jsval
     \<Rightarrow> (js_error + jsval) \<times> http_request list" where
  "loadIG L net this packageId igVersion =
     (if \<not> isReady this then (Inl (Error ''Validator service is not ready''), [])
      else
        (case baseUrl this of
           None \<Rightarrow> (Inl (TypeError ''Invalid URL''), [])
         | Some base \<Rightarrow>
             (let req = \<lparr> req_method = ''POST'',
                           req_origin = base,
                           req_path = ''/loadIG'',
                           req_query = [(''packageId'', js_ToString L packageId),
                                        (''version'', js_ToString L igVersion)],
                           req_headers = [(''Accept'', ''application/fhir+json'')],
                           req_body = None \<rparr>
              in (case net req of
                    RequestError e \<Rightarrow> Inl e
                  | RequestTimeout \<Rightarrow> Inl (Error ''Load IG request timeout'')
                  | Response statusCode data \<Rightarrow>
                      (case JSON_parse L data of
                         Inl e \<Rightarrow>
                           Inl (Error (''Failed to parse response: '' @ error_message e
                                       @ [CHR 0x0A] @ ''Response: '' @ data))
                       | Inr v \<Rightarrow> Inr v),
                  [req]))))"

text \<open>The value \<open>runTxTest\<close> resolves with: \<open>{result, message}\<close>.\<close>

record tx_result =
  result :: bool
  message :: "jsval option"

text \<open>\<open>v?.k\<close>.\<close>

definition optional_chain :: "jsval \<Rightarrow> string \<Rightarrow> js_error + jsval" where
  "optional_chain v k = (if v = JNull \<or> v = JUndefined then Inr JUndefined else get_prop v k)"

text \<open>
  The \<open>try\<close> block of the \<open>end\<close> handler of \<open>runTxTest\<close>: \<open>Inl\<close> is a thrown error,
  \<open>Inr\<close> the value passed to \<open>resolve\<close>.
\<close>

definition runTxTest_try :: "js_lib \<Rightarrow> string \<Rightarrow> js_error + tx_result" where
  "runTxTest_try L data =
     bindE (JSON_parse L data) (\<lambda>outcome.
     bindE (get_prop outcome ''resourceType'') (\<lambda>resourceType.
       if \<not> strict_eq resourceType (JStr ''OperationOutcome'')
       then Inr \<lparr> result = False,
                  message = Some (JStr (''Unexpected response type: ''
                     @ js_ToString L (js_or resourceType (JStr ''unknown'')))) \<rparr>
       else
         bindE (get_prop outcome ''issue'') (\<lambda>issue.
         bindE (if \<not> truthy issue then Inr True
                else bindE (get_prop issue ''length'') (\<lambda>n. Inr (strict_eq n (JNum 0))))
           (\<lambda>noIssues.
           if noIssues then Inr \<lparr> result = True, message = None \<rparr>
           else
             bindE (call_find issue ''severity'' ''error'') (\<lambda>errorIssue.
               if truthy errorIssue
               then
                 bindE (get_prop errorIssue ''details'') (\<lambda>details.
                 bindE (optional_chain details ''text'') (\<lambda>text.
                 bindE (if truthy text then Inr text
                        else bindE (get_prop errorIssue ''diagnostics'') (\<lambda>diagnostics.
                               Inr (js_or diagnostics (JStr ''Test failed with error''))))
                   (\<lambda>msg. Inr \<lparr> result = False, message = Some msg \<rparr>)))
               else Inr \<lparr> result = True, message = None \<rparr>)))))"

text \<open>
  The parts of \<open>runTxTest\<close>: the destructuring of the parameters with the check of
  the required ones and the query built from them; the value every handler of the
  request resolves with; and the function itself.
\<close>

definition txTest_query :: "js_lib \<Rightarrow> jsval \<Rightarrow> js_error + (string \<times> string) list" where
  "txTest_query L params =
     bindE (get_prop params ''server'') (\<lambda>server.
     bindE (get_prop params ''suiteName'') (\<lambda>suiteName.
     bindE (get_prop params ''testName'') (\<lambda>testName.
     bindE (get_prop params ''version'') (\<lambda>fhirVersion.
     bindE (get_prop params ''externalFile'') (\<lambda>externalFile.
     bindE (get_prop params ''modes'') (\<lambda>modes.
       if \<not> truthy server \<or> \<not> truthy suiteName \<or> \<not> truthy testName \<or> \<not> truthy fhirVersion
       then Inl (Error ''server, suiteName, testName, and version are required'')
       else Inr ([(''server'', js_ToString L server),
                  (''suite'', js_ToString L suiteName),
                  (''test'', js_ToString L testName),
                  (''version'', js_ToString L fhirVersion)]
                 @ (if truthy externalFile
                    then [(''externalFile'', js_ToString L externalFile)] else [])
                 @ (if truthy modes then [(''modes'', js_ToString L modes)] else []))))))))"

definition txTest_outcome :: "js_lib \<Rightarrow> http_outcome \<Rightarrow> tx_result" where
  "txTest_outcome L reply =
     (case reply of
        RequestError e \<Rightarrow>
          \<lparr> result = False, message = Some (JStr (''Request failed: '' @ error_message e)) \<rparr>
      | RequestTimeout \<Rightarrow>
          \<lparr> result = False, message = Some (JStr ''Request timeout'') \<rparr>
      | Response statusCode data \<Rightarrow>
          if statusCode \<ge> 400
          then \<lparr> result = False,
                 message = Some (JStr (''HTTP error '' @ show_nat statusCode @ '': '' @ data)) \<rparr>
          else
            (case runTxTest_try L data of
               Inl e \<Rightarrow>
                 \<lparr> result = False,
                   message = Some (JStr (''Failed to parse response: '' @ error_message e)) \<rparr>
             | Inr r \<Rightarrow> r))"

definition runTxTest ::
  "js_lib \<Rightarrow> (http_request \<Rightarrow> http_outcome) \<Rightarrow> validator \<Rightarrow> jsval
     \<Rightarrow> (js_error + tx_result) \<times> http_request list" where
  "runTxTest L net this params =
     (if \<not> isReady this then (Inl (Error ''Validator service is not ready''), [])
      else
        (case txTest_query L params of
           Inl e \<Rightarrow> (Inl e, [])
         | Inr queryParams \<Rightarrow>
             (case baseUrl this of
                None \<Rightarrow> (Inl (TypeError ''Invalid URL''), [])
              | Some base \<Rightarrow>
                  (let req = \<lparr> req_method = ''GET'',
                                req_origin = base,
                                req_path = ''/txTest'',
                                req_query = queryParams,
                                req_headers = [(''Accept'', ''application/fhir+json'')],
                                req_body = None \<rparr>
                   in (Inr (txTest_outcome L (net req)), [req])))))"

section \<open>The process supervisor\<close>

text \<open>\<open>cleanup\<close> and \<open>isRunning\<close>.\<close>

definition cleanup :: "validator \<Rightarrow> validator" where
  "cleanup this = this\<lparr> process := None, port := None, baseUrl := None, isReady := False \<rparr>"

definition isRunning :: "validator \<Rightarrow> bool" where
  "isRunning this = (process this \<noteq> None \<and> isReady this)"

text \<open>
  \<open>healthCheck\<close>: the address is built from the base URL at the moment of the call;
  \<open>reply\<close> is what the network does with the request.
\<close>

definition healthCheck :: "validator \<Rightarrow> http_outcome \<Rightarrow> js_error + unit" where
  "healthCheck this reply =
     (case baseUrl this of
        None \<Rightarrow> Inl (TypeError ''Invalid URL'')
      | Some base \<Rightarrow>
          (case reply of
             RequestError e \<Rightarrow> Inl e
           | RequestTimeout \<Rightarrow> Inl (Error ''Health check timeout'')
           | Response statusCode data \<Rightarrow>
               if statusCode = 405 then Inr ()
               else Inl (Error (''Unexpected status code: '' @ show_nat statusCode))))"

text \<open>
  One turn of the loop of \<open>waitForReady\<close>, as the environment shapes it: the answer to
  the probe, the time the probe takes, and whether the \<open>exit\<close> event of the child is
  delivered while the probe is awaited or during the pause of one second. The handler
  registered by \<open>start\<close> calls \<open>cleanup\<close>.
\<close>

record round =
  probe_reply :: http_outcome
  probe_ms :: nat
  exit_during_probe :: bool
  exit_during_sleep :: bool

definition on_exit :: "bool \<Rightarrow> validator \<Rightarrow> validator" where
  "on_exit fires this = (if fires then cleanup this else this)"

text \<open>The loop condition \<open>Date.now() - startTime < timeout\<close>.\<close>

definition before_deadline :: "js_lib \<Rightarrow> nat \<Rightarrow> jsval \<Rightarrow> bool" where
  "before_deadline L elapsed timeout = js_less L (JNum (real elapsed)) timeout"

text \<open>
  \<open>waitForReady\<close>; \<open>elapsed\<close> is \<open>Date.now() - startTime\<close> in milliseconds, \<open>i\<close> counts the
  turns.
\<close>

function waitForReady ::
  "js_lib \<Rightarrow> (nat \<Rightarrow> round) \<Rightarrow> jsval \<Rightarrow> nat \<Rightarrow> nat \<Rightarrow> validator
     \<Rightarrow> (js_error + unit) \<times> validator" where
  "waitForReady L rounds timeout elapsed i this =
     (if before_deadline L elapsed timeout
      then
        (let probe = healthCheck this (probe_reply (rounds i));
             this1 = on_exit (exit_during_probe (rounds i)) this
         in case probe of
              Inr u \<Rightarrow> (Inr (), this1\<lparr> isReady := True \<rparr>)
            | Inl e \<Rightarrow>
                waitForReady L rounds timeout (elapsed + probe_ms (rounds i) + 1000) (i + 1)
                  (on_exit (exit_during_sleep (rounds i)) this1))
      else (Inl (Error (''Validator service did not become ready within ''
                        @ js_ToString L timeout @ ''ms'')), this))"
  by pat_completeness auto
termination
proof (relation "measure (\<lambda>(L, rounds, timeout, elapsed, i, this).
          case js_ToNumber L timeout of None \<Rightarrow> 0 | Some t \<Rightarrow> nat \<lceil>t\<rceil> - elapsed)", goal_cases)
  case 1
  show ?case by simp
next
  case (2 L rounds timeout elapsed i this probe this1 e)
  then obtain t where t: "js_ToNumber L timeout = Some t" and lt: "real elapsed < t"
    by (auto simp: before_deadline_def js_less_def split: option.splits)
  from lt have "elapsed < nat \<lceil>t\<rceil>"
    by linarith
  with t show ?case
    by simp
qed

declare waitForReady.simps [simp del]

text \<open>
  What the environment does during \<open>start\<close>: the \<open>error\<close> event of \<open>spawn\<close>, if any (its
  handler rethrows, so the promise never settles), and the turns of the readiness wait.
\<close>

record startup =
  startup_spawn_error :: "js_error option"
  startup_rounds :: "nat \<Rightarrow> round"

text \<open>
  \<open>for (const ig of igs)\<close>: the elements of an array, the characters of a string (of
  ASCII text, one per byte), the bytes of a buffer; any other value is not iterable.
\<close>

fun iterate :: "jsval \<Rightarrow> js_error + jsval list" where
  "iterate (JArr xs) = Inr xs"
| "iterate (JStr s) = Inr (map (\<lambda>c. JStr [c]) s)"
| "iterate (JBuffer b) = Inr (map (\<lambda>c. JNum (real (of_char c :: nat))) b)"
| "iterate v = Inl (TypeError ''igs is not iterable'')"

text \<open>
  \<open>start\<close>. The handlers of the output streams only log and record the version banner;
  they are not part of the model.
\<close>

definition start ::
  "js_lib \<Rightarrow> env \<Rightarrow> startup \<Rightarrow> filesystem \<Rightarrow> validator \<Rightarrow> jsval
     \<Rightarrow> unit promise \<times> validator \<times> filesystem" where
  "start L E S fs this config =
     (if process this \<noteq> None
      then (Rejected (Error ''Validator service is already running''), this, fs)
      else
        (case bindE (get_prop config ''version'') (\<lambda>fhirVersion.
              bindE (get_prop config ''txServer'') (\<lambda>txServer.
              bindE (get_prop config ''txLog'') (\<lambda>txLog.
              bindE (get_prop config ''igs'') (\<lambda>igs.
              bindE (get_prop config ''port'') (\<lambda>port0.
              bindE (get_prop config ''timeout'') (\<lambda>timeout.
              bindE (get_prop config ''autoDownload'') (\<lambda>autoDownload.
              bindE (get_prop config ''skipUpdateCheck'') (\<lambda>skipUpdateCheck.
                Inr (fhirVersion, txServer, txLog, with_default igs (JArr []),
                     with_default port0 (JNum 8080), with_default timeout (JNum 30000),
                     with_default autoDownload (JBool True),
                     with_default skipUpdateCheck (JBool False)))))))))) of
           Inl e \<Rightarrow> (Rejected e, this, fs)
         | Inr (fhirVersion, txServer, txLog, igs, port0, timeout, autoDownload, skipUpdateCheck) \<Rightarrow>
             if \<not> truthy fhirVersion \<or> \<not> truthy txServer \<or> \<not> truthy txLog
             then (Rejected (Error ''version, txServer, and txLog are required''), this, fs)
             else
               (case (if truthy autoDownload
                      then (case ensureValidator L E fs this
                                   (JObj [(''skipUpdateCheck'', skipUpdateCheck)]) of
                              (Resolved r, fs', reqs) \<Rightarrow> (Resolved (), fs')
                            | (Rejected e, fs', reqs) \<Rightarrow> (Rejected e, fs')
                            | (Unsettled e, fs', reqs) \<Rightarrow> (Unsettled e, fs')
                            | (Pending, fs', reqs) \<Rightarrow> (Pending, fs'))
                      else if \<not> existsSync fs (validatorJarPath this)
                      then (Rejected (Error (''Validator JAR not found at '' @ validatorJarPath this
                               @ ''. Set autoDownload: true or download manually.'')), fs)
                      else (Resolved (), fs)) of
                  (Rejected e, fs') \<Rightarrow> (Rejected e, this, fs')
                | (Unsettled e, fs') \<Rightarrow> (Unsettled e, this, fs')
                | (Pending, fs') \<Rightarrow> (Pending, this, fs')
                | (Resolved u, fs') \<Rightarrow>
                    (let this1 = this\<lparr> port := Some port0,
                                        baseUrl := Some (''http://localhost:'' @ js_ToString L port0) \<rparr>
                     in case bindE (call_toString L port0) (\<lambda>portText.
                             bindE (iterate igs) (\<lambda>igList.
                               Inr ([JStr ''-jar'', JStr (validatorJarPath this),
                                     JStr ''-server'', JStr portText,
                                     JStr ''-tx'', txServer,
                                     JStr ''-txLog'', txLog,
                                     JStr ''-version'', fhirVersion]
                                    @ concat (map (\<lambda>ig. [JStr ''-ig'', ig]) igList)))) of
                          Inl e \<Rightarrow> (Rejected e, this1, fs')
                        | Inr argv \<Rightarrow>
                              (let this2 = this1\<lparr> process :=
                                     Some \<lparr> command = ''java'',
                                            args = map (js_ToString L) argv,
                                            killed = False \<rparr> \<rparr>
                               in case startup_spawn_error S of
                                    Some e \<Rightarrow> (Unsettled e, this2, fs')
                                  | None \<Rightarrow>
                                      (case waitForReady L (startup_rounds S) timeout 0 0 this2 of
                                         (Inl e, this3) \<Rightarrow> (Rejected e, this3, fs')
                                       | (Inr u, this3) \<Rightarrow> (Resolved (), this3, fs')))))))"

text \<open>
  \<open>stop\<close>. \<open>delivered\<close> is the result of \<open>kill('SIGKILL')\<close>, which sets the \<open>killed\<close> flag
  of the handle when the signal was sent; \<open>exits\<close> tells whether the \<open>exit\<close> event comes
  before the timer of 10000 ms fires; on that event the handler registered by \<open>start\<close>
  and the one registered by \<open>stop\<close> both call \<open>cleanup\<close>. The third component lists the
  signals sent.
\<close>

definition stop :: "bool \<Rightarrow> bool \<Rightarrow> validator \<Rightarrow> (js_error + unit) \<times> validator \<times> string list" where
  "stop delivered exits this =
     (case process this of
        None \<Rightarrow> (Inr (), this, [])
      | Some p \<Rightarrow>
          (let this1 = this\<lparr> process := Some (p\<lparr> killed := killed p \<or> delivered \<rparr>) \<rparr>
           in if exits
              then (Inr (), cleanup (cleanup this1), [''SIGKILL''])
              else
                (case process this1 of
                   Some q \<Rightarrow>
                     if \<not> killed q
                     then (Inr (), cleanup this1, [''SIGKILL'', ''SIGKILL''])
                     else (Inr (), cleanup this1, [''SIGKILL''])
                 | None \<Rightarrow> (Inr (), cleanup this1, [''SIGKILL'']))))"

section \<open>A sample platform\<close>

text \<open>
  A platform for evaluating the model on concrete inputs: \<open>JSON.parse\<close> on a table of
  texts (any other text is reported as a syntax error, so the examples only use texts of
  the table or texts that are not JSON), the digits of a number that is a natural
  number, and fixed results for the other functions.
\<close>

definition sample_json :: "(string \<times> jsval) list" where
  "sample_json =
     [(''null'', JNull),
      (''{}'', JObj []),
      (''{\"version\":\"6.0.0\"}'', JObj [(''version'', JStr ''6.0.0'')]),
      (''{\"tag_name\":\"6.1.0\",\"assets\":[{\"name\":\"validator_cli.jar\",\"browser_download_url\":\"https://dl.test/v.jar\"}]}'',
       JObj [(''tag_name'', JStr ''6.1.0''),
             (''assets'', JArr [JObj [(''name'', JStr ''validator_cli.jar''),
                                      (''browser_download_url'', JStr ''https://dl.test/v.jar'')]])]),
      (''{\"resourceType\":\"Patient\"}'', JObj [(''resourceType'', JStr ''Patient'')]),
      (''{\"resourceType\":\"OperationOutcome\"}'',
       JObj [(''resourceType'', JStr ''OperationOutcome'')]),
      (''{\"resourceType\":\"OperationOutcome\",\"issue\":[{\"severity\":\"warning\"}]}'',
       JObj [(''resourceType'', JStr ''OperationOutcome''),
             (''issue'', JArr [JObj [(''severity'', JStr ''warning'')]])]),
      (''{\"resourceType\":\"OperationOutcome\",\"issue\":[{\"severity\":\"warning\"},{\"severity\":\"error\",\"diagnostics\":\"Unknown code\"}]}'',
       JObj [(''resourceType'', JStr ''OperationOutcome''),
             (''issue'', JArr [JObj [(''severity'', JStr ''warning'')],
                               JObj [(''severity'', JStr ''error''),
                                     (''diagnostics'', JStr ''Unknown code'')]])])]"

definition sample_lib :: js_lib where
  "sample_lib =
     \<lparr> JSON_parse = (\<lambda>s. case map_of sample_json s of
                          Some v \<Rightarrow> Inr v
                        | None \<Rightarrow> Inl (SyntaxError ''Unexpected token'')),
       JSON_stringify = (\<lambda>v. ''{}''),
       Number_toString = (\<lambda>r. show_nat (nat \<lfloor>r\<rfloor>)),
       String_toNumber = (\<lambda>s. None),
       path_dirname = (\<lambda>p. ''.'') \<rparr>"

text \<open>
  Five webs: one that redirects the download address once and then serves the payload
  (any other address is missing), one that redirects for ever, one where the disk
  fills up during the transfer, one where the socket fails during the transfer, and one
  that redirects the download address and keeps the idle connection open until its
  timeout fires, while the payload is served from the other address. The working
  directory exists.
\<close>

definition web_redirect_once :: "nat \<Rightarrow> string \<Rightarrow> hop" where
  "web_redirect_once i u =
     (if u = ''https://dl.test/v.jar'' then Reply 302 (Some ''https://cdn.test/v.jar'') (Finished [])
      else if u = ''https://cdn.test/v.jar'' then Reply 200 None (Finished ''JAR'')
      else Reply 404 None (Finished []))"




definition web_kept_open :: "nat \<Rightarrow> string \<Rightarrow> hop" where
  "web_kept_open i u =
     (if u = ''https://dl.test/v.jar'' then Reply 302 (Some ''https://cdn.test/v.jar'') (Stalled [])
      else Reply 200 None (Finished ''JAR''))"

definition fs_cwd :: filesystem where
  "fs_cwd = [''.'' \<mapsto> Dir]"


text \<open>
  File systems with the artifact installed, without a sidecar file and with a sidecar
  file that is JSON but records no version; a release index that announces 6.1.0; a
  configuration for \<open>start\<close>; a start during which the child exits while the first probe
  is awaited and the probe is answered with status 405 all the same; and an instance
  with a live child.
\<close>

definition fs_installed :: filesystem where
  "fs_installed = fs_cwd(''validator_cli.jar'' \<mapsto> File ''old jar'')"

definition fs_sidecar_without_version :: filesystem where
  "fs_sidecar_without_version = fs_installed(''validator_cli.jar.version'' \<mapsto> File ''{}'')"

definition env_release :: env where
  "env_release =
     \<lparr> env_now = ''2025-01-01T00:00:00.000Z'',
       env_github = Response 200
         ''{\"tag_name\":\"6.1.0\",\"assets\":[{\"name\":\"validator_cli.jar\",\"browser_download_url\":\"https://dl.test/v.jar\"}]}'',
       env_web = web_redirect_once \<rparr>"

definition sample_config :: jsval where
  "sample_config =
     JObj [(''version'', JStr ''5.0.0''),
           (''txServer'', JStr ''http://tx.fhir.org/r5''),
           (''txLog'', JStr ''./txlog.txt''),
           (''autoDownload'', JBool False)]"

definition startup_exit_during_probe :: startup where
  "startup_exit_during_probe =
     \<lparr> startup_spawn_error = None,
       startup_rounds = (\<lambda>i. \<lparr> probe_reply = Response 405 [], probe_ms = 200,
                                exit_during_probe = True, exit_during_sleep = False \<rparr>) \<rparr>"

definition sample_running :: validator where
  "sample_running =
     (constructor ''validator_cli.jar'')
       \<lparr> process := Some \<lparr> command = ''java'', args = [''-jar'', ''validator_cli.jar''], killed = False \<rparr>,
         port := Some (JNum 8080),
         baseUrl := Some ''http://localhost:8080'',
         isReady := True \<rparr>"



definition net_ok :: "http_request \<Rightarrow> http_outcome" where
  "net_ok req = Response 200 ''{\"resourceType\":\"OperationOutcome\"}''"

section \<open>Properties of version tracking\<close>

text \<open>
  Claim C7. \<open>getInstalledVersion\<close> never throws: in every state of the file system it
  returns a value. When the sidecar version file is missing, when reading it throws,
  and when its contents are not JSON, the value is \<open>null\<close>.
\<close>

theorem getInstalledVersion_never_throws:
  "(\<exists>v. getInstalledVersion L fs this = Inr v) \<and>
   (\<not> existsSync fs (versionFilePath this) \<longrightarrow> getInstalledVersion L fs this = Inr JNull) \<and>
   ((\<exists>e. readFileSync fs (versionFilePath this) = Inl e)
      \<longrightarrow> getInstalledVersion L fs this = Inr JNull) \<and>
   ((\<exists>c e. readFileSync fs (versionFilePath this) = Inr c \<and> JSON_parse L c = Inl e)
      \<longrightarrow> getInstalledVersion L fs this = Inr JNull)"
proof -
  have total: "\<exists>v. getInstalledVersion L fs this = Inr v"
    by (simp add: getInstalledVersion_def split: sum.split option.split)
  have missing: "getInstalledVersion L fs this = Inr JNull"
    if "\<not> existsSync fs (versionFilePath this)"
    using that by (simp add: getInstalledVersion_def getInstalledVersion_try_def)
  have unreadable: "getInstalledVersion L fs this = Inr JNull"
    if "\<exists>e. readFileSync fs (versionFilePath this) = Inl e"
    using that
    by (auto simp: getInstalledVersion_def getInstalledVersion_try_def bindE_def)
  have unparsable: "getInstalledVersion L fs this = Inr JNull"
    if "\<exists>c e. readFileSync fs (versionFilePath this) = Inr c \<and> JSON_parse L c = Inl e"
    using that
    by (auto simp: getInstalledVersion_def getInstalledVersion_try_def bindE_def)
  from total missing unreadable unparsable show ?thesis
    by blast
qed

theorem getInstalledVersion_never_throws_witness:
  "\<not> existsSync Map.empty (versionFilePath (constructor ''validator_cli.jar'')) \<and>
   getInstalledVersion sample_lib Map.empty (constructor ''validator_cli.jar'') = Inr JNull \<and>
   readFileSync [''validator_cli.jar.version'' \<mapsto> Denied ''EACCES: permission denied'']
      (versionFilePath (constructor ''validator_cli.jar''))
     = Inl (Error ''EACCES: permission denied'') \<and>
   getInstalledVersion sample_lib
      [''validator_cli.jar.version'' \<mapsto> Denied ''EACCES: permission denied'']
      (constructor ''validator_cli.jar'') = Inr JNull \<and>
   readFileSync [''validator_cli.jar.version'' \<mapsto> File ''not valid json'']
      (versionFilePath (constructor ''validator_cli.jar'')) = Inr ''not valid json'' \<and>
   JSON_parse sample_lib ''not valid json'' = Inl (SyntaxError ''Unexpected token'') \<and>
   getInstalledVersion sample_lib
      [''validator_cli.jar.version'' \<mapsto> File ''not valid json'']
      (constructor ''validator_cli.jar'') = Inr JNull"
proof -
  let ?inst = "constructor ''validator_cli.jar''"
  let ?denied = "[''validator_cli.jar.version'' \<mapsto> Denied ''EACCES: permission denied'']"
  let ?corrupt = "[''validator_cli.jar.version'' \<mapsto> File ''not valid json'']"
  have a: "\<not> existsSync Map.empty (versionFilePath ?inst)"
    by (simp add: existsSync_def)
  have b: "readFileSync ?denied (versionFilePath ?inst) = Inl (Error ''EACCES: permission denied'')"
    by (simp add: readFileSync_def constructor_def)
  have c: "readFileSync ?corrupt (versionFilePath ?inst) = Inr ''not valid json''"
    by (simp add: readFileSync_def constructor_def)
  have d: "JSON_parse sample_lib ''not valid json'' = Inl (SyntaxError ''Unexpected token'')"
    by (simp add: sample_lib_def sample_json_def)
  from a b c d
    getInstalledVersion_never_throws [of sample_lib Map.empty ?inst]
    getInstalledVersion_never_throws [of sample_lib ?denied ?inst]
    getInstalledVersion_never_throws [of sample_lib ?corrupt ?inst]
  show ?thesis
    by blast
qed

section \<open>Properties of downloading\<close>

































text \<open>
  Why the timeouts left behind by redirects are set apart above. The request answered by
  the redirect keeps its timeout; when it fires during the transfer from the other
  address, the promise is rejected with \<open>Download timeout\<close>, and the transfer goes on:
  the write stream finishes and the payload is renamed to the destination.
\<close>

lemma downloadFile_timeout_of_redirected_request:
  "downloadFile sample_lib web_kept_open fs_cwd ''https://dl.test/v.jar'' ''validator_cli.jar''
     = (Rejected (Error ''Download timeout''),
        fs_cwd(''validator_cli.jar'' \<mapsto> File ''JAR''),
        [''https://dl.test/v.jar'', ''https://cdn.test/v.jar''])"
  by (simp add: downloadFile_def downloadWithRedirects.simps web_kept_open_def is_redirect_def
      pipe_response_def existsSync_def open_error_def fileStream_on_finish_def renameSync_def
      on_timeout_def timeout_fires_def fs_cwd_def sample_lib_def Let_def fun_eq_iff)

section \<open>Properties of ensuring the artifact\<close>

text \<open>
  The decision policy of \<open>ensureValidator\<close>, for options that carry the two flags: the
  early return without a request, the return when the installed version is the latest,
  and the download with the new version record.
\<close>

lemma ensureValidator_policy:
  assumes "options = JObj [(''force'', JBool force), (''skipUpdateCheck'', JBool skip)]"
    and "getInstalledVersion L fs this = Inr installed"
  shows "existsSync fs (validatorJarPath this) \<and> skip \<and> \<not> force \<Longrightarrow>
         ensureValidator L E fs this options
           = (Resolved \<lparr> version = js_or installed (JStr ''unknown''),
                           updated = False, downloaded = False \<rparr>, fs, [])"
    and "\<not> (existsSync fs (validatorJarPath this) \<and> skip \<and> \<not> force) \<Longrightarrow>
         getLatestRelease L (env_github E) = Inr latest \<Longrightarrow>
         \<not> force \<and> existsSync fs (validatorJarPath this) \<and> truthy installed
           \<and> strict_eq installed (rel_version latest) \<Longrightarrow>
         ensureValidator L E fs this options
           = (Resolved \<lparr> version = installed, updated = False, downloaded = False \<rparr>,
              fs, [QueryLatest])"
    and "\<not> (existsSync fs (validatorJarPath this) \<and> skip \<and> \<not> force) \<Longrightarrow>
         getLatestRelease L (env_github E) = Inr latest \<Longrightarrow>
         force \<or> \<not> existsSync fs (validatorJarPath this) \<or> \<not> truthy installed
           \<or> \<not> strict_eq installed (rel_version latest) \<Longrightarrow>
         downloadFile L (env_web E) fs (js_ToString L (rel_downloadUrl latest))
            (validatorJarPath this) = (Resolved (), fs', gets) \<Longrightarrow>
         ensureValidator L E fs this options
           = (Resolved \<lparr> version = rel_version latest,
                           updated = (installed \<noteq> JNull
                                      \<and> \<not> strict_eq installed (rel_version latest)),
                           downloaded = True \<rparr>,
              saveVersionInfo L (env_now E) fs' this (rel_version latest) (rel_downloadUrl latest),
              QueryLatest # map Get gets)"
proof -
  have flags: "bindE (get_prop (with_default options (JObj [])) ''force'') (\<lambda>f.
           bindE (get_prop (with_default options (JObj [])) ''skipUpdateCheck'') (\<lambda>s.
             Inr (truthy (with_default f (JBool False)), truthy (with_default s (JBool False)))))
        = Inr (force, skip)"
    using assms(1) by (simp add: with_default_def bindE_def)
  have null: "strict_eq installed JNull = (installed = JNull)"
    by (cases installed) auto
  show "existsSync fs (validatorJarPath this) \<and> skip \<and> \<not> force \<Longrightarrow>
         ensureValidator L E fs this options
           = (Resolved \<lparr> version = js_or installed (JStr ''unknown''),
                           updated = False, downloaded = False \<rparr>, fs, [])"
    using flags assms(2) by (simp add: ensureValidator_def Let_def)
  show "\<not> (existsSync fs (validatorJarPath this) \<and> skip \<and> \<not> force) \<Longrightarrow>
         getLatestRelease L (env_github E) = Inr latest \<Longrightarrow>
         \<not> force \<and> existsSync fs (validatorJarPath this) \<and> truthy installed
           \<and> strict_eq installed (rel_version latest) \<Longrightarrow>
         ensureValidator L E fs this options
           = (Resolved \<lparr> version = installed, updated = False, downloaded = False \<rparr>,
              fs, [QueryLatest])"
    using flags assms(2) by (simp add: ensureValidator_def Let_def)
  show "\<not> (existsSync fs (validatorJarPath this) \<and> skip \<and> \<not> force) \<Longrightarrow>
         getLatestRelease L (env_github E) = Inr latest \<Longrightarrow>
         force \<or> \<not> existsSync fs (validatorJarPath this) \<or> \<not> truthy installed
           \<or> \<not> strict_eq installed (rel_version latest) \<Longrightarrow>
         downloadFile L (env_web E) fs (js_ToString L (rel_downloadUrl latest))
            (validatorJarPath this) = (Resolved (), fs', gets) \<Longrightarrow>
         ensureValidator L E fs this options
           = (Resolved \<lparr> version = rel_version latest,
                           updated = (installed \<noteq> JNull
                                      \<and> \<not> strict_eq installed (rel_version latest)),
                           downloaded = True \<rparr>,
              saveVersionInfo L (env_now E) fs' this (rel_version latest) (rel_downloadUrl latest),
              QueryLatest # map Get gets)"
    using flags assms(2) null by (auto simp: ensureValidator_def Let_def)
qed

text \<open>
  Claim C1 says that \<open>updated\<close> is true exactly when a prior installed version existed
  and differed from the latest. With a sidecar file that holds \<open>{}\<close>,
  \<open>getInstalledVersion\<close> returns \<open>undefined\<close>: no installed version is recorded, and the
  download is decided on that ground. The result nevertheless reports
  \<open>updated: true\<close>, because the test is \<open>installedVersion !== null\<close>.
\<close>

theorem ensureValidator_updated_without_prior_version:
  "getInstalledVersion sample_lib fs_sidecar_without_version (constructor ''validator_cli.jar'')
     = Inr JUndefined
   \<and> fst (ensureValidator sample_lib env_release fs_sidecar_without_version
            (constructor ''validator_cli.jar'') JUndefined)
     = Resolved \<lparr> version = JStr ''6.1.0'', updated = True, downloaded = True \<rparr>"
proof -
  let ?inst = "constructor ''validator_cli.jar''"
  have installed: "getInstalledVersion sample_lib fs_sidecar_without_version ?inst = Inr JUndefined"
    by (simp add: getInstalledVersion_def getInstalledVersion_try_def bindE_def existsSync_def
        readFileSync_def fs_sidecar_without_version_def fs_installed_def fs_cwd_def
        constructor_def sample_lib_def sample_json_def)
  have latest: "getLatestRelease sample_lib (env_github env_release)
      = Inr \<lparr> rel_version = JStr ''6.1.0'', rel_downloadUrl = JStr ''https://dl.test/v.jar'',
              rel_publishedAt = JUndefined \<rparr>"
    by (simp add: getLatestRelease_def getLatestRelease_try_def bindE_def env_release_def
        sample_lib_def sample_json_def)
  have download: "fst (downloadFile sample_lib web_redirect_once fs_sidecar_without_version
      ''https://dl.test/v.jar'' ''validator_cli.jar'') = Resolved ()"
    by (simp add: downloadFile_def downloadWithRedirects.simps web_redirect_once_def
        is_redirect_def pipe_response_def existsSync_def open_error_def fileStream_on_finish_def
        renameSync_def on_timeout_def timeout_fires_def fs_sidecar_without_version_def
        fs_installed_def fs_cwd_def sample_lib_def Let_def)
  have web: "env_web env_release = web_redirect_once"
    by (simp add: env_release_def)
  have jar: "validatorJarPath ?inst = ''validator_cli.jar''"
    by (simp add: constructor_def)
  from download obtain fs1 reqs where dl: "downloadFile sample_lib web_redirect_once
      fs_sidecar_without_version ''https://dl.test/v.jar'' ''validator_cli.jar''
        = (Resolved (), fs1, reqs)"
    by (cases "downloadFile sample_lib web_redirect_once
      fs_sidecar_without_version ''https://dl.test/v.jar'' ''validator_cli.jar''") auto
  from installed latest dl web jar show ?thesis
    by (simp add: ensureValidator_def with_default_def bindE_def Let_def)
qed

theorem ensureValidator_updated_without_prior_version_witness:
  "\<exists>r. fst (ensureValidator sample_lib env_release fs_sidecar_without_version
              (constructor ''validator_cli.jar'') JUndefined) = Resolved r
       \<and> updated r \<and> downloaded r"
  using ensureValidator_updated_without_prior_version by simp

section \<open>Properties of the supervisor\<close>

text \<open>
  Claim C2 says that no reachable state has \<open>isReady\<close> true with a null process handle.
  When the child exits while a health probe is awaited, the handler of \<open>exit\<close> clears the
  state; when the probe is then answered with status 405, \<open>waitForReady\<close> sets
  \<open>isReady\<close> without looking at the handle. \<open>start\<close> resolves in a state where
  \<open>isReady\<close> is true and the process handle, the port and the base URL are \<open>null\<close>.
\<close>

theorem start_ready_without_process:
  "start sample_lib env_release startup_exit_during_probe fs_installed
      (constructor ''validator_cli.jar'') sample_config
     = (Resolved (), (constructor ''validator_cli.jar'')\<lparr> isReady := True \<rparr>, fs_installed)
   \<and> isReady ((constructor ''validator_cli.jar'')\<lparr> isReady := True \<rparr>)
   \<and> process ((constructor ''validator_cli.jar'')\<lparr> isReady := True \<rparr>) = None"
  by (simp add: start_def sample_config_def startup_exit_during_probe_def constructor_def
      bindE_def with_default_def existsSync_def fs_installed_def fs_cwd_def
      sample_lib_def show_nat.simps waitForReady.simps before_deadline_def js_less_def
      healthCheck_def on_exit_def cleanup_def Let_def)

theorem start_ready_without_process_witness:
  "\<exists>this. fst (snd (start sample_lib env_release startup_exit_during_probe fs_installed
                       (constructor ''validator_cli.jar'') sample_config)) = this
          \<and> isReady this \<and> process this = None \<and> baseUrl this = None"
  using start_ready_without_process by (simp add: constructor_def)

text \<open>
  What does hold of \<open>cleanup\<close>: the four fields are cleared together, and a second call
  changes nothing.
\<close>

lemma cleanup_clears:
  "process (cleanup this) = None \<and> port (cleanup this) = None
   \<and> baseUrl (cleanup this) = None \<and> \<not> isReady (cleanup this)
   \<and> \<not> isRunning (cleanup this) \<and> cleanup (cleanup this) = cleanup this"
  by (simp add: cleanup_def isRunning_def)

text \<open>
  Claim C5 says that when the \<open>exit\<close> event does not come in time, \<open>stop\<close> resolves after
  a fallback kill. The first \<open>kill\<close> sets the \<open>killed\<close> flag of the handle when the signal
  is sent, and the timer only kills when the flag is not set: with a live child whose
  first signal was sent and that does not exit, one signal is sent, not two.
\<close>

theorem stop_timeout_sends_no_second_kill:
  "stop True False sample_running = (Inr (), cleanup sample_running, [''SIGKILL''])"
  by (simp add: stop_def sample_running_def cleanup_def constructor_def Let_def)

lemma cleanup_process_update: "cleanup (this\<lparr> process := p \<rparr>) = cleanup this"
  by (simp add: cleanup_def)

text \<open>
  Claim C5, amended. \<open>stop\<close> never rejects. Without a process handle it resolves at once,
  the state unchanged and no signal sent. With a process handle the first thing sent is
  \<open>SIGKILL\<close>, with no other signal before it; the promise resolves after the \<open>exit\<close> event
  or after the timer, and in both cases the process handle, the port and the base URL
  are \<open>null\<close> and \<open>isReady\<close> is false by then. The timer sends a second \<open>SIGKILL\<close> only
  when the \<open>killed\<close> flag of the handle is not set, that is when the handle was not
  marked before and the first signal could not be sent.
\<close>

theorem stop_never_rejects:
  assumes "stop delivered exits this = (r, this', sigs)"
  shows "r = Inr ()
       \<and> (process this = None \<longrightarrow> this' = this \<and> sigs = [])
       \<and> (\<forall>p. process this = Some p \<longrightarrow>
             this' = cleanup this
             \<and> process this' = None \<and> port this' = None \<and> baseUrl this' = None \<and> \<not> isReady this'
             \<and> sigs = ''SIGKILL'' # (if \<not> exits \<and> \<not> killed p \<and> \<not> delivered then [''SIGKILL''] else []))"
proof (cases "process this")
  case None
  with assms show ?thesis
    by (simp add: stop_def)
next
  case (Some p)
  have fields: "process (cleanup this) = None \<and> port (cleanup this) = None
      \<and> baseUrl (cleanup this) = None \<and> \<not> isReady (cleanup this)"
    by (simp add: cleanup_def)
  have twice: "cleanup (cleanup this) = cleanup this"
    by (simp add: cleanup_def)
  from assms Some have "r = Inr ()" "this' = cleanup this"
    "sigs = ''SIGKILL'' # (if \<not> exits \<and> \<not> killed p \<and> \<not> delivered then [''SIGKILL''] else [])"
    by (auto simp: stop_def Let_def cleanup_process_update twice split: if_splits)
  with Some fields show ?thesis
    by simp
qed

theorem stop_never_rejects_witness:
  "stop True True (constructor ''validator_cli.jar'')
     = (Inr (), constructor ''validator_cli.jar'', [])
   \<and> process sample_running
     = Some \<lparr> command = ''java'', args = [''-jar'', ''validator_cli.jar''], killed = False \<rparr>
   \<and> stop True True sample_running = (Inr (), cleanup sample_running, [''SIGKILL''])
   \<and> stop False False sample_running = (Inr (), cleanup sample_running, [''SIGKILL'', ''SIGKILL''])
   \<and> \<not> isReady (cleanup sample_running) \<and> process (cleanup sample_running) = None"
proof -
  let ?idle = "constructor ''validator_cli.jar''"
  let ?p = "\<lparr> command = ''java'', args = [''-jar'', ''validator_cli.jar''], killed = False \<rparr>"
  have idle: "process ?idle = None"
    by (simp add: constructor_def)
  have running: "process sample_running = Some ?p"
    by (simp add: sample_running_def)
  obtain r1 s1 k1 where a: "stop True True ?idle = (r1, s1, k1)"
    by (cases "stop True True ?idle") auto
  obtain r2 s2 k2 where b: "stop True True sample_running = (r2, s2, k2)"
    by (cases "stop True True sample_running") auto
  obtain r3 s3 k3 where c: "stop False False sample_running = (r3, s3, k3)"
    by (cases "stop False False sample_running") auto
  from stop_never_rejects [OF a] idle have a': "r1 = Inr () \<and> s1 = ?idle \<and> k1 = []"
    by blast
  from stop_never_rejects [OF b] running
  have b': "r2 = Inr () \<and> s2 = cleanup sample_running \<and> \<not> isReady s2 \<and> process s2 = None
      \<and> k2 = [''SIGKILL'']"
    by (simp add: cleanup_def)
  from stop_never_rejects [OF c] running
  have c': "r3 = Inr () \<and> s3 = cleanup sample_running \<and> k3 = [''SIGKILL'', ''SIGKILL'']"
    by simp
  from a a' b b' c c' running show ?thesis
    by (simp add: cleanup_def)
qed

section \<open>Properties of the client\<close>

text \<open>
  Claim C6. While \<open>isReady\<close> is false, \<open>validate\<close>, \<open>loadIG\<close> and \<open>runTxTest\<close> reject with
  the error \<open>Validator service is not ready\<close> whatever their arguments are, valid or not,
  and issue no HTTP request: the test comes before the conversion of the resource, the
  check of the parameters and the request.
\<close>

theorem not_ready_rejects_first:
  assumes "\<not> isReady this"
  shows "validate L net this resource options
           = (Inl (Error ''Validator service is not ready''), [])
       \<and> loadIG L net this packageId igVersion
           = (Inl (Error ''Validator service is not ready''), [])
       \<and> runTxTest L net this params
           = (Inl (Error ''Validator service is not ready''), [])"
  using assms by (simp add: validate_def loadIG_def runTxTest_def)

theorem not_ready_rejects_first_witness:
  "\<not> isReady (constructor ''validator_cli.jar'')
   \<and> validate sample_lib net_ok (constructor ''validator_cli.jar'') (JNum 42) JNull
       = (Inl (Error ''Validator service is not ready''), [])
   \<and> validate sample_lib net_ok (constructor ''validator_cli.jar'') (JStr ''{}'') JUndefined
       = (Inl (Error ''Validator service is not ready''), [])
   \<and> loadIG sample_lib net_ok (constructor ''validator_cli.jar'') JUndefined JUndefined
       = (Inl (Error ''Validator service is not ready''), [])
   \<and> runTxTest sample_lib net_ok (constructor ''validator_cli.jar'') JUndefined
       = (Inl (Error ''Validator service is not ready''), [])"
proof -
  have idle: "\<not> isReady (constructor ''validator_cli.jar'')"
    by (simp add: constructor_def)
  from idle
    not_ready_rejects_first [OF idle, of sample_lib net_ok "JNum 42" JNull JUndefined JUndefined JUndefined]
    not_ready_rejects_first [OF idle, of sample_lib net_ok "JStr ''{}''" JUndefined JUndefined JUndefined JUndefined]
  show ?thesis
    by simp
qed

text \<open>
  Claim C10. In every state of the service, ready or not, \<open>validateBytes\<close> on a value
  that is not a \<open>Buffer\<close> rejects with \<open>resourceBytes must be a Buffer\<close>, and
  \<open>validateObject\<close> on \<open>null\<close> or on a value that is not an object rejects with
  \<open>resourceObject must be an object\<close>; no HTTP request is issued. The not-ready error
  does not come first.
\<close>

theorem wrappers_check_type_first:
  "(\<not> isBuffer resourceBytes \<longrightarrow>
      validateBytes L net this resourceBytes format options
        = (Inl (Error ''resourceBytes must be a Buffer''), []))
   \<and> (typeof resourceObject \<noteq> ''object'' \<or> resourceObject = JNull \<longrightarrow>
      validateObject L net this resourceObject options
        = (Inl (Error ''resourceObject must be an object''), []))"
  by (simp add: validateBytes_def validateObject_def)

theorem wrappers_check_type_first_witness:
  "\<not> isReady (constructor ''validator_cli.jar'')
   \<and> \<not> isBuffer (JStr ''not-a-buffer'')
   \<and> validateBytes sample_lib net_ok (constructor ''validator_cli.jar'') (JStr ''not-a-buffer'')
         JUndefined JUndefined
       = (Inl (Error ''resourceBytes must be a Buffer''), [])
   \<and> validateObject sample_lib net_ok (constructor ''validator_cli.jar'') JNull JUndefined
       = (Inl (Error ''resourceObject must be an object''), [])
   \<and> typeof (JStr ''string'') \<noteq> ''object''
   \<and> validateObject sample_lib net_ok (constructor ''validator_cli.jar'') (JStr ''string'') JUndefined
       = (Inl (Error ''resourceObject must be an object''), [])
   \<and> validateBytes sample_lib net_ok sample_running (JObj []) JUndefined JUndefined
       = (Inl (Error ''resourceBytes must be a Buffer''), [])"
proof -
  let ?idle = "constructor ''validator_cli.jar''"
  have idle: "\<not> isReady ?idle"
    by (simp add: constructor_def)
  have a: "\<not> isBuffer (JStr ''not-a-buffer'')" and b: "typeof (JStr ''string'') \<noteq> ''object''"
    and c: "\<not> isBuffer (JObj [])"
    by simp_all
  from idle a b c
    wrappers_check_type_first [of "JStr ''not-a-buffer''" sample_lib net_ok ?idle JUndefined JUndefined JNull]
    wrappers_check_type_first [of "JStr ''not-a-buffer''" sample_lib net_ok ?idle JUndefined JUndefined "JStr ''string''"]
    wrappers_check_type_first [of "JObj []" sample_lib net_ok sample_running JUndefined JUndefined JNull]
  show ?thesis
    by simp
qed

text \<open>
  Claim C9. \<open>validateBytes\<close> ignores its format argument: for every resource, every two
  formats and every options value, in the same state and against the same network, the
  two calls end the same way and issue the same requests.
\<close>

theorem validateBytes_ignores_format:
  "validateBytes L net this resourceBytes format1 options
     = validateBytes L net this resourceBytes format2 options"
  by (simp add: validateBytes_def)

text \<open>
  Claim C8. When the service is ready and the options give a query, \<open>validate\<close> issues
  one request. For a string and for a \<open>Buffer\<close> the body is the bytes of the text, and
  the content type is \<open>application/fhir+xml\<close> when the trimmed text starts with \<open><\<close>,
  \<open>application/fhir+json\<close> otherwise. For an object that is not a \<open>Buffer\<close> the body is its
  JSON serialization and the content type is \<open>application/fhir+json\<close>.
\<close>

theorem validate_content_type:
  assumes "isReady this" and "baseUrl this = Some base"
    and "validate_query L (with_default options (JObj [])) = Inr q"
  shows "((resource = JStr s \<or> resource = JBuffer s) \<longrightarrow>
           (\<exists>req. snd (validate L net this resource options) = [req]
              \<and> req_body req = Some s
              \<and> map_of (req_headers req) ''Content-Type''
                  = Some (if startsWith (trim s) ''<''
                          then ''application/fhir+xml'' else ''application/fhir+json'')))
       \<and> ((typeof resource = ''object'' \<and> \<not> isBuffer resource) \<longrightarrow>
           (\<exists>req. snd (validate L net this resource options) = [req]
              \<and> req_body req = Some (JSON_stringify L resource)
              \<and> map_of (req_headers req) ''Content-Type'' = Some ''application/fhir+json''))"
proof -
  have str_case: "normalize_resource L resource
      = Inr (s, if startsWith (trim s) ''<''
                then ''application/fhir+xml'' else ''application/fhir+json'')"
    if "resource = JStr s \<or> resource = JBuffer s"
    using that by (auto simp: normalize_resource_def)
  have obj_case: "normalize_resource L resource = Inr (JSON_stringify L resource, ''application/fhir+json'')"
    if "typeof resource = ''object'' \<and> \<not> isBuffer resource"
    using that by (simp add: normalize_resource_def)
  from assms str_case obj_case show ?thesis
    by (auto simp: validate_def Let_def)
qed

theorem validate_content_type_witness:
  "isReady sample_running \<and> baseUrl sample_running = Some ''http://localhost:8080''
   \<and> validate_query sample_lib (with_default JUndefined (JObj [])) = Inr []
   \<and> trim ''  <Patient/>'' = ''<Patient/>''
   \<and> (\<exists>req. snd (validate sample_lib net_ok sample_running (JStr ''  <Patient/>'') JUndefined) = [req]
          \<and> req_body req = Some ''  <Patient/>''
          \<and> map_of (req_headers req) ''Content-Type'' = Some ''application/fhir+xml'')
   \<and> (\<exists>req. snd (validate sample_lib net_ok sample_running (JBuffer ''{}'') JUndefined) = [req]
          \<and> req_body req = Some ''{}''
          \<and> map_of (req_headers req) ''Content-Type'' = Some ''application/fhir+json'')
   \<and> (\<exists>req. snd (validate sample_lib net_ok sample_running (JObj []) JUndefined) = [req]
          \<and> req_body req = Some ''{}''
          \<and> map_of (req_headers req) ''Content-Type'' = Some ''application/fhir+json'')"
proof -
  have ready: "isReady sample_running" and base: "baseUrl sample_running = Some ''http://localhost:8080''"
    by (simp_all add: sample_running_def)
  have query: "validate_query sample_lib (with_default JUndefined (JObj [])) = Inr []"
    by (simp add: validate_query_def with_default_def bindE_def)
  have xml: "trim ''  <Patient/>'' = ''<Patient/>''"
    by (simp add: trim_def trimStart.simps trimEnd.simps leading_ws_def trailing_ws_def js_whitespace_def)
  have json: "trim ''{}'' = ''{}''"
    by (simp add: trim_def trimStart.simps trimEnd.simps leading_ws_def trailing_ws_def js_whitespace_def)
  have str: "JSON_stringify sample_lib (JObj []) = ''{}''"
    by (simp add: sample_lib_def)
  note inst = validate_content_type [OF ready base query, where net = net_ok]
  from inst [of "JStr ''  <Patient/>''" "''  <Patient/>''"] xml
  have a: "\<exists>req. snd (validate sample_lib net_ok sample_running (JStr ''  <Patient/>'') JUndefined) = [req]
          \<and> req_body req = Some ''  <Patient/>''
          \<and> map_of (req_headers req) ''Content-Type'' = Some ''application/fhir+xml''"
    by (simp add: startsWith_def)
  from inst [of "JBuffer ''{}''" "''{}''"] json
  have b: "\<exists>req. snd (validate sample_lib net_ok sample_running (JBuffer ''{}'') JUndefined) = [req]
          \<and> req_body req = Some ''{}''
          \<and> map_of (req_headers req) ''Content-Type'' = Some ''application/fhir+json''"
    by (simp add: startsWith_def)
  from inst [of "JObj []" "[]"] str
  have c: "\<exists>req. snd (validate sample_lib net_ok sample_running (JObj []) JUndefined) = [req]
          \<and> req_body req = Some ''{}''
          \<and> map_of (req_headers req) ''Content-Type'' = Some ''application/fhir+json''"
    by simp
  from ready base query xml a b c show ?thesis
    by simp
qed

lemma strict_eq_JStr [simp]: "strict_eq v (JStr s) = (v = JStr s)"
  by (cases v) auto














end
